theory Spec2Isabelle
  imports Main "HOL-Library.Word" "HOL-Library.Char_ord" "HOL-Library.List_Lexorder"
begin

section \<open>The range-scan iterator of store/tikv/scan.go\<close>

text \<open>
  The Scanner pages through a partitioned, versioned key-value store. Its collaborators
  (region cache, request sender, backoffer, snapshot point-read, lock extraction, the
  visibility check) are not part of scan.go. They are taken as parameters: a record
  \<open>env\<close> of functions over an abstract world state \<open>'w\<close>, which every call that may
  block, sleep or talk to the network receives and returns. Logging, the random
  correlation id and the per-call timeout constant have no effect on the Scanner's
  state or results and are left out.
\<close>

subsection \<open>Data\<close>

text \<open>Go's \<open>[]byte\<close> and \<open>kv.Key\<close>: byte strings, ordered lexicographically byte by
  byte; the nil slice and the empty slice are both \<open>[]\<close>.\<close>

type_synonym bytes = "char list"

text \<open>Go \<open>error\<close> values: the sentinels \<open>kv.ErrNotExist\<close> and \<open>ErrBodyMissing\<close>, and
  errors made with \<open>errors.New\<close>. \<open>errors.Trace\<close> only annotates an error with a
  location and keeps its cause (and maps nil to nil), so it is the identity here.\<close>

datatype error = ErrNotExist | ErrBodyMissing | ErrNew string

text \<open>What a call that returns \<open>error\<close> yields: nil, a non-nil error, or a run-time
  panic (a slice index out of range).\<close>

datatype ret = Ok | Err error | Panic

text \<open>kvrpcpb.LockInfo, kvrpcpb.KeyError (the per-key conflict marker) and
  kvrpcpb.KvPair.\<close>

record LockInfo =
  PrimaryLock :: bytes
  LockVersion :: "64 word"
  LockInfoKey :: bytes
  LockTtl :: "64 word"

record KeyError =
  Locked :: "LockInfo option"
  Retryable :: string
  Abort :: string

record KvPair =
  Error :: "KeyError option"
  Key :: bytes
  Value :: bytes

text \<open>Modelled from the spec: the lock descriptor that \<open>extractLockFromKeyErr\<close> returns
  (type \<open>Lock\<close>, declared outside scan.go); the Scanner reads only its key.\<close>

record Lock =
  lock_Key :: bytes
  Primary :: bytes
  TxnID :: "64 word"
  TTL :: "64 word"

record RegionVerID =
  region_id :: "64 word"
  confVer :: "64 word"
  ver :: "64 word"

record KeyLocation =
  Region :: RegionVerID
  LocStartKey :: bytes
  EndKey :: bytes

datatype IsoLevel = SI | RC
datatype pb_IsolationLevel = IsolationLevel_SI | IsolationLevel_RC
datatype CommandPri = CommandPri_Normal | CommandPri_Low | CommandPri_High
datatype CmdType = CmdScan | CmdOther

text \<open>errorpb.Error, a shard-routing error; only its rendering \<open>String()\<close> is used.\<close>

datatype RegionError = RegionError (String: string)

record ScanRequest =
  StartKey :: bytes
  Limit :: "32 word"
  Version :: "64 word"

record Context =
  IsolationLevel :: pb_IsolationLevel
  Priority :: CommandPri
  NotFillCache :: bool

record Request =
  ReqType :: CmdType
  ReqScan :: ScanRequest
  ReqContext :: Context

record ScanResponse =
  ScanRegionError :: "RegionError option"
  Pairs :: "KvPair list"

record Response =
  Scan :: "ScanResponse option"

text \<open>The category of a backoff (declared outside scan.go); the Scanner uses the
  routing-miss category \<open>BoRegionMiss\<close> only.\<close>

datatype backoffType = BoRegionMiss | BoOtherType

text \<open>The snapshot (declared outside scan.go), by the fields scan.go reads: the fixed
  read version and the read options.\<close>

record tikvSnapshot =
  version :: "64 word"
  isolationLevel :: IsoLevel
  priority :: CommandPri
  notFillCache :: bool

text \<open>The Scanner struct. Go's \<open>int\<close> fields are unbounded integers here: \<open>idx\<close> stays
  within the page length plus one, and the one conversion of \<open>batchSize\<close>, to the
  \<open>uint32\<close> limit of the request, is written out in \<open>scanRequest\<close>.\<close>

record Scanner =
  snapshot :: tikvSnapshot
  batchSize :: int
  valid :: bool
  cache :: "KvPair list"
  idx :: int
  nextStartKey :: bytes
  eof :: bool

text \<open>
  The collaborators. \<open>scanBatchSize\<close> is the default page size constant;
  \<open>NewBackoffer\<close> starts a fresh retry budget; \<open>Backoff\<close> consumes one unit of it for a
  category and fails once the budget is spent; \<open>snapshot_get\<close> is the snapshot's
  point-read \<open>(*tikvSnapshot).get\<close>.
\<close>

record 'w env =
  scanBatchSize :: int
  NewBackoffer :: "'w \<Rightarrow> 'w"
  LocateKey :: "'w \<Rightarrow> bytes \<Rightarrow> 'w \<times> (error + KeyLocation)"
  SendReq :: "'w \<Rightarrow> Request \<Rightarrow> RegionVerID \<Rightarrow> 'w \<times> (error + Response)"
  GetRegionError :: "Response \<Rightarrow> error + RegionError option"
  Backoff :: "'w \<Rightarrow> backoffType \<Rightarrow> error \<Rightarrow> 'w \<times> error option"
  CheckVisibility :: "'w \<Rightarrow> 64 word \<Rightarrow> error option"
  extractLockFromKeyErr :: "KeyError \<Rightarrow> error + Lock"
  snapshot_get :: "'w \<Rightarrow> tikvSnapshot \<Rightarrow> bytes \<Rightarrow> 'w \<times> (error + bytes)"
  pbIsolationLevel :: "IsoLevel \<Rightarrow> pb_IsolationLevel"

text \<open>Modelled from the spec: \<open>kv.IsErrNotFound\<close> (package kv) recognises the
  "not found" condition, the sentinel \<open>kv.ErrNotExist\<close>.\<close>

definition IsErrNotFound :: "ret \<Rightarrow> bool" where
  "IsErrNotFound r = (r = Err ErrNotExist)"

text \<open>Modelled from the spec: \<open>kv.Key.Next\<close> (package kv) gives the immediate
  lexicographic successor of a key, the key with a zero byte appended.\<close>

definition Key_Next :: "bytes \<Rightarrow> bytes" where
  "Key_Next k = k @ [CHR 0x00]"

subsection \<open>Accessors and Close\<close>

definition Valid :: "Scanner \<Rightarrow> bool" where
  "Valid s = valid s"

text \<open>\<open>Key()\<close> and \<open>Value()\<close> index the page at the cursor when the Scanner is valid;
  \<open>None\<close> is Go's index-out-of-range panic.\<close>

definition Scanner_Key :: "Scanner \<Rightarrow> bytes option" where
  "Scanner_Key s =
     (if valid s then
        (if 0 \<le> idx s \<and> idx s < int (length (cache s))
         then Some (Key (cache s ! nat (idx s))) else None)
      else Some [])"

definition Scanner_Value :: "Scanner \<Rightarrow> bytes option" where
  "Scanner_Value s =
     (if valid s then
        (if 0 \<le> idx s \<and> idx s < int (length (cache s))
         then Some (Value (cache s ! nat (idx s))) else None)
      else Some [])"

definition Close :: "Scanner \<Rightarrow> Scanner" where
  "Close s = s\<lparr>valid := False\<rparr>"

definition startTS :: "Scanner \<Rightarrow> 64 word" where
  "startTS s = version (snapshot s)"

subsection \<open>Conflict resolution\<close>

definition resolveCurrentLock :: "'w env \<Rightarrow> Scanner \<Rightarrow> 'w \<Rightarrow> 'w \<times> Scanner \<times> ret" where
  "resolveCurrentLock E s w =
     (if 0 \<le> idx s \<and> idx s < int (length (cache s)) then
        (let current = cache s ! nat (idx s) in
         case Error current of
           None \<Rightarrow> (w, s, Ok)
         | Some _ \<Rightarrow>
             (case snapshot_get E w (snapshot s) (Key current) of
                (w', Inl err) \<Rightarrow> (w', s, Err err)
              | (w', Inr val) \<Rightarrow>
                  (w', s\<lparr>cache := (cache s)[nat (idx s) :=
                             current\<lparr>Error := None, Value := val\<rparr>]\<rparr>, Ok)))
      else (w, s, Panic))"

subsection \<open>Page fetch\<close>

text \<open>The loop over the returned pairs (lines 197-206): a pair with a conflict marker
  gets the key of the lock extracted from the marker; the first extraction failure
  ends the fetch.\<close>

fun rewriteKeys :: "'w env \<Rightarrow> KvPair list \<Rightarrow> error + KvPair list" where
  "rewriteKeys E [] = Inr []"
| "rewriteKeys E (pair # rest) =
     (case Error pair of
        None \<Rightarrow>
          (case rewriteKeys E rest of Inl err \<Rightarrow> Inl err | Inr ps \<Rightarrow> Inr (pair # ps))
      | Some keyErr \<Rightarrow>
          (case extractLockFromKeyErr E keyErr of
             Inl err \<Rightarrow> Inl err
           | Inr lock \<Rightarrow>
               (case rewriteKeys E rest of
                  Inl err \<Rightarrow> Inl err
                | Inr ps \<Rightarrow> Inr (pair\<lparr>Key := lock_Key lock\<rparr> # ps))))"

definition scanRequest :: "'w env \<Rightarrow> Scanner \<Rightarrow> Request" where
  "scanRequest E s =
     \<lparr>ReqType = CmdScan,
      ReqScan = \<lparr>StartKey = nextStartKey s,
                 Limit = word_of_int (batchSize s),
                 Version = startTS s\<rparr>,
      ReqContext = \<lparr>IsolationLevel = pbIsolationLevel E (isolationLevel (snapshot s)),
                    Priority = priority (snapshot s),
                    NotFillCache = notFillCache (snapshot s)\<rparr>\<rparr>"

text \<open>Lines 208-225: install the page and determine where the next fetch starts.\<close>

definition install :: "Scanner \<Rightarrow> KeyLocation \<Rightarrow> KvPair list \<Rightarrow> Scanner \<times> ret" where
  "install s loc kvPairs =
     (let s = s\<lparr>cache := kvPairs, idx := 0\<rparr> in
      if int (length kvPairs) < batchSize s then
        (let s = s\<lparr>nextStartKey := EndKey loc\<rparr>;
             s = (if length (EndKey loc) = 0 then s\<lparr>eof := True\<rparr> else s)
         in (s, Ok))
      else if kvPairs = [] then (s, Panic)
      else (s\<lparr>nextStartKey := Key_Next (Key (last kvPairs))\<rparr>, Ok))"

text \<open>One iteration of the loop of \<open>getData\<close>: \<open>Inl w\<close> is \<open>continue\<close> (in world \<open>w\<close>),
  \<open>Inr\<close> is \<open>return\<close>.\<close>

definition getData_body :: "'w env \<Rightarrow> Scanner \<Rightarrow> 'w \<Rightarrow> 'w + ('w \<times> Scanner \<times> ret)" where
  "getData_body E s w =
     (case LocateKey E w (nextStartKey s) of
        (w, Inl err) \<Rightarrow> Inr (w, s, Err err)
      | (w, Inr loc) \<Rightarrow>
          (case SendReq E w (scanRequest E s) (Region loc) of
             (w, Inl err) \<Rightarrow> Inr (w, s, Err err)
           | (w, Inr resp) \<Rightarrow>
               (case GetRegionError E resp of
                  Inl err \<Rightarrow> Inr (w, s, Err err)
                | Inr (Some regionErr) \<Rightarrow>
                    (case Backoff E w BoRegionMiss (ErrNew (String regionErr)) of
                       (w, Some err) \<Rightarrow> Inr (w, s, Err err)
                     | (w, None) \<Rightarrow> Inl w)
                | Inr None \<Rightarrow>
                    (case Scan resp of
                       None \<Rightarrow> Inr (w, s, Err ErrBodyMissing)
                     | Some cmdScanResp \<Rightarrow>
                         (case CheckVisibility E w (startTS s) of
                            Some err \<Rightarrow> Inr (w, s, Err err)
                          | None \<Rightarrow>
                              (case rewriteKeys E (Pairs cmdScanResp) of
                                 Inl err \<Rightarrow> Inr (w, s, Err err)
                               | Inr kvPairs \<Rightarrow>
                                   (case install s loc kvPairs of
                                      (s, r) \<Rightarrow> Inr (w, s, r))))))))"

partial_function (option) getData :: "'w env \<Rightarrow> Scanner \<Rightarrow> 'w \<Rightarrow> ('w \<times> Scanner \<times> ret) option" where
  "getData E s w =
     (case getData_body E s w of
        Inl w \<Rightarrow> getData E s w
      | Inr r \<Rightarrow> Some r)"

subsection \<open>Cursor advance\<close>

datatype 'w flow = Continue 'w Scanner | Return 'w Scanner ret

text \<open>Lines 106-116: resolve the entry under the cursor, skip it when its value is
  empty.\<close>

definition Next_visit :: "'w env \<Rightarrow> Scanner \<Rightarrow> 'w \<Rightarrow> 'w flow" where
  "Next_visit E s w =
     (case resolveCurrentLock E s w of
        (w, s, Panic) \<Rightarrow> Return w s Panic
      | (w, s, Err err) \<Rightarrow> Return w (Close s) (Err err)
      | (w, s, Ok) \<Rightarrow>
          (case Scanner_Value s of
             None \<Rightarrow> Return w s Panic
           | Some v \<Rightarrow> if length v = 0 then Continue w s else Return w s Ok))"

text \<open>One iteration of the loop of \<open>Next\<close> (lines 86-116); \<open>None\<close> when the page fetch
  does not return.\<close>

definition Next_body :: "'w env \<Rightarrow> Scanner \<Rightarrow> 'w \<Rightarrow> 'w flow option" where
  "Next_body E s w =
     (let s = s\<lparr>idx := idx s + 1\<rparr> in
      if idx s \<ge> int (length (cache s)) then
        (if eof s then Some (Return w (Close s) Ok)
         else
           (case getData E s w of
              None \<Rightarrow> None
            | Some (w, s, Panic) \<Rightarrow> Some (Return w s Panic)
            | Some (w, s, Err err) \<Rightarrow> Some (Return w (Close s) (Err err))
            | Some (w, s, Ok) \<Rightarrow>
                if idx s \<ge> int (length (cache s)) then Some (Continue w s)
                else Some (Next_visit E s w)))
      else Some (Next_visit E s w))"

partial_function (option) Next_loop :: "'w env \<Rightarrow> Scanner \<Rightarrow> 'w \<Rightarrow> ('w \<times> Scanner \<times> ret) option" where
  "Next_loop E s w =
     (case Next_body E s w of
        None \<Rightarrow> None
      | Some (Continue w s) \<Rightarrow> Next_loop E s w
      | Some (Return w s r) \<Rightarrow> Some (w, s, r))"

definition Next :: "'w env \<Rightarrow> Scanner \<Rightarrow> 'w \<Rightarrow> ('w \<times> Scanner \<times> ret) option" where
  "Next E s w =
     (let w = NewBackoffer E w in
      if \<not> valid s then Some (w, s, Err (ErrNew ''scanner iterator is invalid''))
      else Next_loop E s w)"

subsection \<open>Construction\<close>

definition newScanner ::
  "'w env \<Rightarrow> tikvSnapshot \<Rightarrow> bytes \<Rightarrow> int \<Rightarrow> 'w \<Rightarrow> ('w \<times> Scanner \<times> ret) option" where
  "newScanner E snap startKey size0 w =
     (let size1 = (if size0 \<le> 1 then scanBatchSize E else size0);
          scanner = \<lparr>snapshot = snap, batchSize = size1, valid = True, cache = [],
                     idx = 0, nextStartKey = startKey, eof = False\<rparr>
      in case Next E scanner w of
           None \<Rightarrow> None
         | Some (w, scanner, err) \<Rightarrow>
             if IsErrNotFound err then Some (w, scanner, Ok)
             else Some (w, scanner, err))"

declare getData.simps [code] Next_loop.simps [code]

subsection \<open>Repeated attempts of a page fetch\<close>

text \<open>The world after \<open>n\<close> consecutive attempts of \<open>getData\<close> that each ended in
  \<open>continue\<close>; \<open>None\<close> when one of them returned instead.\<close>

fun retried :: "'w env \<Rightarrow> Scanner \<Rightarrow> nat \<Rightarrow> 'w \<Rightarrow> 'w option" where
  "retried E s 0 w = Some w"
| "retried E s (Suc n) w =
     (case getData_body E s w of Inl w' \<Rightarrow> retried E s n w' | Inr r \<Rightarrow> None)"

subsection \<open>A concrete store\<close>

text \<open>
  A single-shard store for running the Scanner on concrete data. The world is a pair:
  the number of routing errors the shard will still answer with, and the backoff units
  left. A store entry is the scanned key with the pair the shard returns for it.
\<close>

definition lockOn :: "bytes \<Rightarrow> KeyError" where
  "lockOn k = \<lparr>Locked = Some \<lparr>PrimaryLock = k, LockVersion = 5, LockInfoKey = k,
                              LockTtl = 0\<rparr>,
               Retryable = [], Abort = []\<rparr>"

definition testEnv ::
  "(bytes \<times> KvPair) list \<Rightarrow> (bytes \<Rightarrow> error + bytes) \<Rightarrow> (nat \<times> nat) env" where
  "testEnv store pointRead =
     \<lparr>scanBatchSize = 256,
      NewBackoffer = (\<lambda>(p, b). (p, 2)),
      LocateKey = (\<lambda>w k. (w, Inr \<lparr>Region = \<lparr>region_id = 1, confVer = 1, ver = 1\<rparr>,
                                   LocStartKey = [], EndKey = []\<rparr>)),
      SendReq = (\<lambda>(p, b) req r. ((p, b), Inr \<lparr>Scan = Some
                   \<lparr>ScanRegionError =
                      (if p > 0 then Some (RegionError ''not leader'') else None),
                    Pairs =
                      (if p > 0 then []
                       else map snd (take (unat (Limit (ReqScan req)))
                              (filter (\<lambda>pr. StartKey (ReqScan req) \<le> fst pr) store)))\<rparr>\<rparr>)),
      GetRegionError = (\<lambda>resp. case Scan resp of None \<Rightarrow> Inr None
                                 | Some sr \<Rightarrow> Inr (ScanRegionError sr)),
      Backoff = (\<lambda>(p, b) t e. if b = 0 then ((p, b), Some (ErrNew ''maxSleep exceeded''))
                              else ((p - 1, b - 1), None)),
      CheckVisibility = (\<lambda>w ts. None),
      extractLockFromKeyErr = (\<lambda>ke. case Locked ke of
           Some li \<Rightarrow> Inr \<lparr>lock_Key = LockInfoKey li, Primary = PrimaryLock li,
                            TxnID = LockVersion li, TTL = LockTtl li\<rparr>
         | None \<Rightarrow> Inl (ErrNew ''unexpected KeyError'')),
      snapshot_get = (\<lambda>w snap k. (w, pointRead k)),
      pbIsolationLevel =
        (\<lambda>l. case l of SI \<Rightarrow> IsolationLevel_SI | RC \<Rightarrow> IsolationLevel_RC)\<rparr>"

definition snap10 :: tikvSnapshot where
  "snap10 = \<lparr>version = 10, isolationLevel = SI, priority = CommandPri_Normal,
             notFillCache = False\<rparr>"

text \<open>Keys a, b, c, d, e at version 10; c is deleted and d is locked.\<close>

definition store5 :: "(bytes \<times> KvPair) list" where
  "store5 = [(''a'', \<lparr>Error = None, Key = ''a'', Value = ''A''\<rparr>),
             (''b'', \<lparr>Error = None, Key = ''b'', Value = ''B''\<rparr>),
             (''c'', \<lparr>Error = None, Key = ''c'', Value = []\<rparr>),
             (''d'', \<lparr>Error = Some (lockOn ''d''), Key = [], Value = []\<rparr>),
             (''e'', \<lparr>Error = None, Key = ''e'', Value = ''E''\<rparr>)]"

definition env5 :: "(nat \<times> nat) env" where
  "env5 = testEnv store5 (\<lambda>k. Inr ''D2'')"

text \<open>The struct \<open>newScanner\<close> builds for start key \<open>""\<close> and page size 3.\<close>

definition scanner0 :: Scanner where
  "scanner0 = \<lparr>snapshot = snap10, batchSize = 3, valid = True, cache = [], idx = 0,
               nextStartKey = [], eof = False\<rparr>"

text \<open>The same store with a point-read that fails with "not found", and a store whose
  only entry carries a marker no lock can be extracted from.\<close>

definition envNotFound :: "(nat \<times> nat) env" where
  "envNotFound = testEnv store5 (\<lambda>k. Inl ErrNotExist)"

definition envBadMarker :: "(nat \<times> nat) env" where
  "envBadMarker = testEnv
     [(''a'', \<lparr>Error = Some \<lparr>Locked = None, Retryable = ''retry'', Abort = []\<rparr>,
               Key = [], Value = []\<rparr>)] (\<lambda>k. Inr [])"

definition envDown :: "(nat \<times> nat) env" where
  "envDown = env5\<lparr>SendReq := (\<lambda>w req r. (w, Inl (ErrNew ''connection refused'')))\<rparr>"

text \<open>The location the concrete store's region cache returns, and the responses of its
  shard: a routing error, the page after key c, and the page with a marker that holds
  no lock.\<close>

definition loc1 :: KeyLocation where
  "loc1 = \<lparr>Region = \<lparr>region_id = 1, confVer = 1, ver = 1\<rparr>, LocStartKey = [], EndKey = []\<rparr>"

definition respMiss :: Response where
  "respMiss = \<lparr>Scan = Some \<lparr>ScanRegionError = Some (RegionError ''not leader''),
                            Pairs = []\<rparr>\<rparr>"

definition respDE :: ScanResponse where
  "respDE = \<lparr>ScanRegionError = None,
             Pairs = [\<lparr>Error = Some (lockOn ''d''), Key = [], Value = []\<rparr>,
                      \<lparr>Error = None, Key = ''e'', Value = ''E''\<rparr>]\<rparr>"

definition respBad :: ScanResponse where
  "respBad = \<lparr>ScanRegionError = None,
              Pairs = [\<lparr>Error = Some \<lparr>Locked = None, Retryable = ''retry'', Abort = []\<rparr>,
                        Key = [], Value = []\<rparr>]\<rparr>"

text \<open>Scanner states of the scan of \<open>store5\<close> with page size 3: on the first page at
  cursor \<open>i\<close>, and on the second page with its first entry \<open>d\<close>.\<close>

definition pageABC :: "KvPair list" where
  "pageABC = [\<lparr>Error = None, Key = ''a'', Value = ''A''\<rparr>,
              \<lparr>Error = None, Key = ''b'', Value = ''B''\<rparr>,
              \<lparr>Error = None, Key = ''c'', Value = []\<rparr>]"

definition scannerABC :: "int \<Rightarrow> Scanner" where
  "scannerABC i = \<lparr>snapshot = snap10, batchSize = 3, valid = True, cache = pageABC, idx = i,
                   nextStartKey = ''c'' @ [CHR 0x00], eof = False\<rparr>"

definition scannerDE :: "KvPair \<Rightarrow> Scanner" where
  "scannerDE d = \<lparr>snapshot = snap10, batchSize = 3, valid = True,
                  cache = [d, \<lparr>Error = None, Key = ''e'', Value = ''E''\<rparr>], idx = 0,
                  nextStartKey = [], eof = True\<rparr>"

definition lockedD :: KvPair where
  "lockedD = \<lparr>Error = Some (lockOn ''d''), Key = ''d'', Value = []\<rparr>"

definition resolvedD :: KvPair where
  "resolvedD = \<lparr>Error = None, Key = ''d'', Value = ''D2''\<rparr>"

subsection \<open>Ordered stores and the keys a caller reads\<close>









subsection \<open>Sequences of calls\<close>

text \<open>The operations a caller has, and a sequence of them performed one after the
  other on a Scanner; \<open>None\<close> when a call panics or does not return.\<close>

datatype call = CallNext | CallClose | CallKey | CallValue

fun perform :: "'w env \<Rightarrow> call \<Rightarrow> Scanner \<Rightarrow> 'w \<Rightarrow> ('w \<times> Scanner) option" where
  "perform E CallNext s w =
     (case Next E s w of
        None \<Rightarrow> None
      | Some (w', s', Panic) \<Rightarrow> None
      | Some (w', s', r) \<Rightarrow> Some (w', s'))"
| "perform E CallClose s w = Some (w, Close s)"
| "perform E CallKey s w = (case Scanner_Key s of None \<Rightarrow> None | Some k \<Rightarrow> Some (w, s))"
| "perform E CallValue s w = (case Scanner_Value s of None \<Rightarrow> None | Some v \<Rightarrow> Some (w, s))"

fun perform_all :: "'w env \<Rightarrow> call list \<Rightarrow> Scanner \<Rightarrow> 'w \<Rightarrow> ('w \<times> Scanner) option" where
  "perform_all E [] s w = Some (w, s)"
| "perform_all E (c # cs) s w =
     (case perform E c s w of
        None \<Rightarrow> None
      | Some (w', s') \<Rightarrow> perform_all E cs s' w')"

subsection \<open>What the key rewrite computes\<close>

text \<open>A pair with its key replaced by the key of the lock extracted from its conflict
  marker; a pair without a marker is left as it is.\<close>

definition withLockKey :: "'w env \<Rightarrow> KvPair \<Rightarrow> KvPair" where
  "withLockKey E p =
     (case Error p of
        None \<Rightarrow> p
      | Some ke \<Rightarrow> (case extractLockFromKeyErr E ke of
                     Inl err \<Rightarrow> p
                   | Inr lock \<Rightarrow> p\<lparr>Key := lock_Key lock\<rparr>))"

section \<open>Unfolding the concrete store\<close>

lemmas env_simps = env5_def envNotFound_def envBadMarker_def envDown_def testEnv_def
  store5_def snap10_def lockOn_def scanRequest_def startTS_def scanner0_def loc1_def
  respMiss_def respDE_def respBad_def

lemmas state_simps = pageABC_def scannerABC_def scannerDE_def lockedD_def resolvedD_def

section \<open>The page-fetch loop\<close>

lemma getData_returns: "getData_body E s w = Inr r \<Longrightarrow> getData E s w = Some r"
  by (subst getData.simps) simp


text \<open>A fetch that returns does so in its last attempt, after finitely many attempts
  that ended in \<open>continue\<close>.\<close>

lemma getData_final:
  assumes "getData E s w = Some res"
  shows "\<exists>n w0. retried E s n w = Some w0 \<and> getData_body E s w0 = Inr res"
  using assms
proof (induction rule: getData.raw_induct[rotated 1, consumes 1])
  case (1 getData' E s w res)
  show ?case
  proof (cases "getData_body E s w")
    case (Inl w1)
    with 1 obtain n w0 where "retried E s n w1 = Some w0" "getData_body E s w0 = Inr res"
      by fastforce
    with Inl have "retried E s (Suc n) w = Some w0" by simp
    then show ?thesis using \<open>getData_body E s w0 = Inr res\<close> by blast
  next
    case (Inr r)
    with 1 have "res = r" by simp
    with Inr have "retried E s 0 w = Some w" "getData_body E s w = Inr res" by simp_all
    then show ?thesis by blast
  qed
qed


lemma getData_body_unchanged:
  "getData_body E s w = Inr (w', s', Err e) \<Longrightarrow> s' = s"
  by (auto simp: getData_body_def install_def Let_def
           split: prod.splits sum.splits option.splits if_splits)

lemma getData_err_unchanged:
  assumes "getData E s w = Some (w', s', Err e)"
  shows "s' = s"
proof -
  from getData_final[OF assms] obtain n w0
    where "getData_body E s w0 = Inr (w', s', Err e)" by blast
  then show ?thesis by (rule getData_body_unchanged)
qed

lemma rewriteKeys_all_extracted:
  "(\<forall>p\<in>set ps. \<forall>ke. Error p = Some ke \<longrightarrow> (\<exists>l. extractLockFromKeyErr E ke = Inr l)) \<Longrightarrow>
   rewriteKeys E ps = Inr (map (withLockKey E) ps)"
  by (induction ps) (auto simp: withLockKey_def split: option.splits sum.splits)

lemma rewriteKeys_Inl:
  "rewriteKeys E ps = Inl e \<Longrightarrow>
   \<exists>p\<in>set ps. \<exists>ke. Error p = Some ke \<and> extractLockFromKeyErr E ke = Inl e"
  by (induction ps) (auto split: option.splits sum.splits)

lemma rewriteKeys_Inr:
  "rewriteKeys E ps = Inr qs \<Longrightarrow>
   qs = map (withLockKey E) ps \<and>
   (\<forall>p\<in>set ps. \<forall>ke. Error p = Some ke \<longrightarrow> (\<exists>l. extractLockFromKeyErr E ke = Inr l))"
  by (induction ps arbitrary: qs) (auto simp: withLockKey_def split: option.splits sum.splits)

lemma install_cache:
  "install s loc kvs = (s', r) \<Longrightarrow> cache s' = kvs \<and> idx s' = 0 \<and> (\<forall>e. r \<noteq> Err e)"
  by (auto simp: install_def Let_def split: if_splits)

lemma getData_body_valid_response:
  assumes "LocateKey E w (nextStartKey s) = (w1, Inr loc)"
      and "SendReq E w1 (scanRequest E s) (Region loc) = (w2, Inr resp)"
      and "GetRegionError E resp = Inr None"
      and "Scan resp = Some sr"
      and "CheckVisibility E w2 (startTS s) = None"
  shows "getData_body E s w =
           (case rewriteKeys E (Pairs sr) of
              Inl err \<Rightarrow> Inr (w2, s, Err err)
            | Inr kvPairs \<Rightarrow>
                Inr (w2, fst (install s loc kvPairs), snd (install s loc kvPairs)))"
  using assms by (simp add: getData_body_def split: sum.splits prod.splits)

lemma install_Ok:
  "install s loc kvs = (s', Ok) \<Longrightarrow>
     cache s' = kvs \<and> idx s' = 0 \<and>
     (if int (length kvs) < batchSize s
      then nextStartKey s' = EndKey loc \<and> eof s' = (if EndKey loc = [] then True else eof s)
      else kvs \<noteq> [] \<and> nextStartKey s' = Key_Next (Key (last kvs)) \<and> eof s' = eof s)"
  by (auto simp: install_def Let_def split: if_splits)

text \<open>An attempt that installs a page saw a located shard, a response without a
  routing error, a body, a visible version and pairs whose locks could be extracted.\<close>

lemma getData_body_Ok:
  assumes "getData_body E s w = Inr (w', s', Ok)"
  shows "\<exists>w1 loc resp sr.
           LocateKey E w (nextStartKey s) = (w1, Inr loc) \<and>
           SendReq E w1 (scanRequest E s) (Region loc) = (w', Inr resp) \<and>
           GetRegionError E resp = Inr None \<and> Scan resp = Some sr \<and>
           CheckVisibility E w' (startTS s) = None \<and>
           rewriteKeys E (Pairs sr) = Inr (cache s') \<and>
           install s loc (cache s') = (s', Ok)"
proof -
  obtain w1 x where l: "LocateKey E w (nextStartKey s) = (w1, x)"
    by (cases "LocateKey E w (nextStartKey s)")
  with assms obtain loc where x: "x = Inr loc"
    by (cases x) (auto simp: getData_body_def)
  obtain w2 y where sd: "SendReq E w1 (scanRequest E s) (Region loc) = (w2, y)"
    by (cases "SendReq E w1 (scanRequest E s) (Region loc)")
  with assms l x obtain resp where y: "y = Inr resp"
    by (cases y) (auto simp: getData_body_def)
  from assms l x sd y have g: "GetRegionError E resp = Inr None"
    by (auto simp: getData_body_def split: sum.splits option.splits prod.splits)
  from assms l x sd y g obtain sr where sr: "Scan resp = Some sr"
    by (auto simp: getData_body_def split: sum.splits option.splits prod.splits)
  from assms l x sd y g sr have cv: "CheckVisibility E w2 (startTS s) = None"
    by (auto simp: getData_body_def split: sum.splits option.splits prod.splits)
  from assms l x sd y g sr cv obtain kvs where kvs: "rewriteKeys E (Pairs sr) = Inr kvs"
    by (auto simp: getData_body_def split: sum.splits option.splits prod.splits)
  from assms l x sd y g sr cv kvs have i: "install s loc kvs = (s', Ok)" and w: "w' = w2"
    by (auto simp: getData_body_def split: sum.splits option.splits prod.splits)
  from install_Ok[OF i] have "cache s' = kvs" by simp
  with l x sd y g sr cv kvs i w show ?thesis by auto
qed


section \<open>The successor of a key\<close>

lemma zero_char_least: "CHR 0x00 \<le> (c::char)"
  by (simp add: less_eq_char_def)

lemma Key_Next_greater: "k < Key_Next k"
  by (induction k) (simp_all add: Key_Next_def)

lemma Key_Next_least: "k < x \<Longrightarrow> Key_Next k \<le> x"
proof (induction k arbitrary: x)
  case Nil
  then obtain y ys where "x = y # ys" by (cases x) auto
  then show ?case using zero_char_least[of y] by (auto simp: Key_Next_def)
next
  case (Cons a k)
  then obtain y ys where x: "x = y # ys" by (cases x) auto
  with Cons.prems have "a < y \<or> a = y \<and> k < ys" by simp
  then show ?case
  proof
    assume "a < y"
    then show ?thesis using x by (simp add: Key_Next_def)
  next
    assume "a = y \<and> k < ys"
    with Cons.IH[of ys] x show ?thesis by (simp add: Key_Next_def)
  qed
qed

section \<open>The cursor-advance loop\<close>

text \<open>An invariant rule for the loop of \<open>Next\<close>: what holds before the loop and is kept
  by every iteration that continues, holds where an iteration returns.\<close>

lemma Next_loop_rule_aux:
  assumes run: "Next_loop E s w = Some res"
    and cont: "\<And>E s w w' s'. I E s w \<Longrightarrow> Next_body E s w = Some (Continue w' s') \<Longrightarrow> I E s' w'"
    and fin: "\<And>E s w w' s' r. I E s w \<Longrightarrow> Next_body E s w = Some (Return w' s' r)
                \<Longrightarrow> Q E (w', s', r)"
  shows "I E s w \<longrightarrow> Q E res"
  using run
proof (induction rule: Next_loop.raw_induct[rotated 1, consumes 1])
  case (1 loop E s w res)
  show ?case
  proof
    assume inv: "I E s w"
    show "Q E res"
    proof (cases "Next_body E s w")
      case None
      with 1(2) show ?thesis by simp
    next
      case (Some f)
      show ?thesis
      proof (cases f)
        case (Continue w' s')
        with Some 1(2) have "loop E s' w' = Some res" by simp
        from 1(1)[OF this] cont[OF inv] Some Continue show ?thesis by simp
      next
        case (Return w' s' r)
        with Some 1(2) have "res = (w', s', r)" by simp
        with fin[OF inv] Some Return show ?thesis by simp
      qed
    qed
  qed
qed

lemma Next_loop_rule:
  assumes run: "Next_loop E s w = Some res"
    and init: "I s w"
    and cont: "\<And>s w w' s'. I s w \<Longrightarrow> Next_body E s w = Some (Continue w' s') \<Longrightarrow> I s' w'"
    and fin: "\<And>s w w' s' r. I s w \<Longrightarrow> Next_body E s w = Some (Return w' s' r)
                \<Longrightarrow> Q (w', s', r)"
  shows "Q res"
proof -
  have "(\<lambda>E' s w. E' = E \<and> I s w) E s w \<longrightarrow> (\<lambda>E' r. E' = E \<longrightarrow> Q r) E res"
    by (rule Next_loop_rule_aux[OF run]) (auto intro: cont fin)
  with init show ?thesis by simp
qed


lemma Next_visit_Err:
  "Next_visit E s w = Return w' s' (Err e) \<Longrightarrow> \<not> valid s'"
  by (auto simp: Next_visit_def Close_def split: prod.splits ret.splits option.splits if_splits)


lemma Next_body_Err:
  "Next_body E s w = Some (Return w' s' (Err e)) \<Longrightarrow> \<not> valid s'"
  by (auto simp: Next_body_def Let_def Close_def
           split: if_splits option.splits prod.splits ret.splits dest: Next_visit_Err)


lemma Next_loop_Err:
  assumes "Next_loop E s w = Some (w', s', Err e)"
  shows "\<not> valid s'"
proof -
  have "(\<lambda>(w', s', r). \<forall>e. r = Err e \<longrightarrow> \<not> valid s') (w', s', Err e)"
    by (rule Next_loop_rule[OF assms, where I = "\<lambda>_ _. True"]) (auto dest: Next_body_Err)
  then show ?thesis by simp
qed


section \<open>Order of the keys on an ordered store\<close>


































section \<open>The claims\<close>

text \<open>
  C8. Constructing a Scanner with a requested page size of 0 or of 1 is the same as
  constructing it with the default page size: the size is normalised before anything
  else happens, so the whole construction (the world it leaves, the Scanner, the error)
  is equal.
\<close>

theorem C8_page_size_normalized:
  "newScanner E snap startKey 0 w = newScanner E snap startKey (scanBatchSize E) w \<and>
   newScanner E snap startKey 1 w = newScanner E snap startKey (scanBatchSize E) w"
  by (simp add: newScanner_def)

theorem C8_page_size_normalized_witness:
  "newScanner env5 snap10 [] 0 (0, 0) = newScanner env5 snap10 [] 256 (0, 0) \<and>
   newScanner env5 snap10 [] 1 (0, 0) = newScanner env5 snap10 [] 256 (0, 0)"
proof -
  have "scanBatchSize env5 = 256" by (simp add: env_simps)
  with C8_page_size_normalized[of env5 snap10 "[]" "(0, 0)"] show ?thesis by simp
qed

text \<open>
  C9. When \<open>Valid()\<close> is false, \<open>Next\<close> fails with the iterator-invalid error and leaves
  the Scanner as it is, \<open>Close\<close> leaves it invalid, and \<open>Key()\<close> and \<open>Value()\<close> (which
  do not change the Scanner) return nil. So after any sequence of these operations on
  an invalid Scanner every call has returned and the Scanner is still invalid.
\<close>

theorem C9_invalid_is_terminal:
  assumes "\<not> Valid s"
  shows "Next E s w =
           Some (NewBackoffer E w, s, Err (ErrNew ''scanner iterator is invalid'')) \<and>
         \<not> Valid (Close s) \<and> Scanner_Key s = Some [] \<and> Scanner_Value s = Some [] \<and>
         (\<exists>w' s'. perform_all E cs s w = Some (w', s') \<and> \<not> Valid s')"
proof -
  have "\<not> Valid s \<Longrightarrow> \<exists>w' s'. perform_all E cs s w = Some (w', s') \<and> \<not> Valid s'"
  proof (induction cs arbitrary: s w)
    case Nil
    then show ?case by simp
  next
    case (Cons c cs)
    from Cons.prems obtain w1 s1 where "perform E c s w = Some (w1, s1)" "\<not> Valid s1"
      by (cases c)
         (simp_all add: Valid_def Next_def Close_def Scanner_Key_def Scanner_Value_def)
    with Cons.IH[of s1 w1] show ?case by simp
  qed
  with assms show ?thesis
    by (simp add: Valid_def Next_def Close_def Scanner_Key_def Scanner_Value_def)
qed

theorem C9_invalid_is_terminal_witness:
  "\<not> Valid (Close scanner0) \<and>
   Next env5 (Close scanner0) (0, 0) =
     Some ((0, 2), Close scanner0, Err (ErrNew ''scanner iterator is invalid'')) \<and>
   \<not> Valid (Close (Close scanner0)) \<and>
   Scanner_Key (Close scanner0) = Some [] \<and> Scanner_Value (Close scanner0) = Some [] \<and>
   perform_all env5 [CallNext, CallKey, CallClose, CallValue, CallNext] (Close scanner0) (0, 0) =
     Some ((0, 2), Close scanner0)"
proof -
  have h: "\<not> Valid (Close scanner0)" by (simp add: Valid_def Close_def)
  have "NewBackoffer env5 (0, 0) = (0, 2)" by (simp add: env_simps)
  moreover have "perform_all env5 [CallNext, CallKey, CallClose, CallValue, CallNext]
                   (Close scanner0) (0, 0) = Some ((0, 2), Close scanner0)"
    by code_simp
  ultimately show ?thesis
    using h C9_invalid_is_terminal[OF h, of env5 "(0, 0)"
            "[CallNext, CallKey, CallClose, CallValue, CallNext]"]
    by simp
qed

text \<open>
  C10. A page fetch that returns an error (whatever the cause: locating the shard,
  the transport, the retry budget, a missing body, the visibility check, lock
  extraction) leaves the Scanner's page, cursor, next start key and exhausted flag,
  indeed the whole Scanner, as they were before the call.
\<close>

theorem C10_failed_fetch_keeps_state:
  assumes "getData E s w = Some (w', s', Err e)"
  shows "cache s' = cache s \<and> idx s' = idx s \<and> nextStartKey s' = nextStartKey s \<and>
         eof s' = eof s \<and> s' = s"
  using getData_err_unchanged[OF assms] by simp

lemma getData_budget_exhausted:
  "getData env5 (scanner0\<lparr>idx := 1\<rparr>) (3, 2) =
     Some ((1, 0), scanner0\<lparr>idx := 1\<rparr>, Err (ErrNew ''maxSleep exceeded''))"
  by code_simp

theorem C10_failed_fetch_keeps_state_witness:
  "getData env5 (scanner0\<lparr>idx := 1\<rparr>) (3, 2) =
     Some ((1, 0), scanner0\<lparr>idx := 1\<rparr>, Err (ErrNew ''maxSleep exceeded'')) \<and>
   cache (scanner0\<lparr>idx := 1\<rparr>) = [] \<and> idx (scanner0\<lparr>idx := 1\<rparr>) = 1 \<and>
   nextStartKey (scanner0\<lparr>idx := 1\<rparr>) = [] \<and> \<not> eof (scanner0\<lparr>idx := 1\<rparr>)"
  using C10_failed_fetch_keeps_state[OF getData_budget_exhausted] getData_budget_exhausted
  by (simp add: scanner0_def)

text \<open>
  C2. In a page fetch whose attempt gets a valid response (shard located, request
  delivered, no routing error, body present, version visible): when a lock can be
  extracted from the marker of every returned entry that carries one, the fetch
  returns without error and the page it installs is the returned entries, each marked
  entry with its key replaced by the key of its lock; when extraction fails for some
  marked entry, the fetch fails with the error of such an extraction and the Scanner
  is as before.
\<close>

theorem C2_conflict_keys_rewritten:
  assumes "LocateKey E w (nextStartKey s) = (w1, Inr loc)"
      and "SendReq E w1 (scanRequest E s) (Region loc) = (w2, Inr resp)"
      and "GetRegionError E resp = Inr None"
      and "Scan resp = Some sr"
      and "CheckVisibility E w2 (startTS s) = None"
  shows "((\<forall>p\<in>set (Pairs sr). \<forall>ke. Error p = Some ke \<longrightarrow>
             (\<exists>l. extractLockFromKeyErr E ke = Inr l)) \<longrightarrow>
          (\<exists>s' r. getData E s w = Some (w2, s', r) \<and> (\<forall>e. r \<noteq> Err e) \<and>
                  cache s' = map (withLockKey E) (Pairs sr))) \<and>
         ((\<exists>p\<in>set (Pairs sr). \<exists>ke e. Error p = Some ke \<and>
             extractLockFromKeyErr E ke = Inl e) \<longrightarrow>
          (\<exists>p\<in>set (Pairs sr). \<exists>ke e. Error p = Some ke \<and>
             extractLockFromKeyErr E ke = Inl e \<and> getData E s w = Some (w2, s, Err e)))"
proof (intro conjI impI)
  assume ok: "\<forall>p\<in>set (Pairs sr). \<forall>ke. Error p = Some ke \<longrightarrow>
             (\<exists>l. extractLockFromKeyErr E ke = Inr l)"
  let ?kvs = "map (withLockKey E) (Pairs sr)"
  obtain s' r where i: "install s loc ?kvs = (s', r)" by (cases "install s loc ?kvs")
  from rewriteKeys_all_extracted[OF ok] getData_body_valid_response[OF assms] i
  have "getData_body E s w = Inr (w2, s', r)" by simp
  then have "getData E s w = Some (w2, s', r)" by (rule getData_returns)
  moreover from install_cache[OF i] have "cache s' = ?kvs" "\<forall>e. r \<noteq> Err e"
    by simp_all
  ultimately show "\<exists>s' r. getData E s w = Some (w2, s', r) \<and> (\<forall>e. r \<noteq> Err e) \<and>
                  cache s' = map (withLockKey E) (Pairs sr)" by blast
next
  assume bad: "\<exists>p\<in>set (Pairs sr). \<exists>ke e. Error p = Some ke \<and>
                 extractLockFromKeyErr E ke = Inl e"
  have "\<exists>e. rewriteKeys E (Pairs sr) = Inl e"
  proof (cases "rewriteKeys E (Pairs sr)")
    case (Inl e)
    then show ?thesis by blast
  next
    case (Inr qs)
    from rewriteKeys_Inr[OF this] bad show ?thesis by fastforce
  qed
  then obtain e where e: "rewriteKeys E (Pairs sr) = Inl e" by blast
  with getData_body_valid_response[OF assms]
  have "getData_body E s w = Inr (w2, s, Err e)" by simp
  then have "getData E s w = Some (w2, s, Err e)" by (rule getData_returns)
  with rewriteKeys_Inl[OF e]
  show "\<exists>p\<in>set (Pairs sr). \<exists>ke e. Error p = Some ke \<and>
             extractLockFromKeyErr E ke = Inl e \<and> getData E s w = Some (w2, s, Err e)"
    by blast
qed

theorem C2_conflict_keys_rewritten_witness:
  "(\<exists>s' r. getData env5 (scannerABC 3) (0, 0) = Some ((0, 0), s', r) \<and> (\<forall>e. r \<noteq> Err e) \<and>
           cache s' = [lockedD, \<lparr>Error = None, Key = ''e'', Value = ''E''\<rparr>]) \<and>
   getData envBadMarker scanner0 (0, 0) =
     Some ((0, 0), scanner0, Err (ErrNew ''unexpected KeyError''))"
  using C2_conflict_keys_rewritten[of env5 "(0, 0)" "scannerABC 3" "(0, 0)" loc1 "(0, 0)"
          "\<lparr>Scan = Some respDE\<rparr>" respDE]
        C2_conflict_keys_rewritten[of envBadMarker "(0, 0)" scanner0 "(0, 0)" loc1 "(0, 0)"
          "\<lparr>Scan = Some respBad\<rparr>" respBad]
  by (simp add: env_simps state_simps withLockKey_def)

text \<open>
  C3. After a page fetch that returns without error there is a shard, located for the
  Scanner's next start key in the last attempt of the fetch, such that: if the page
  holds fewer entries than the page size, the next start key is that shard's end
  boundary and the exhausted flag is set to true when the boundary is empty and is
  left as it was otherwise; if the page is full, it is not empty, the exhausted flag
  is left as it was, and the next start key is the key of the last entry with a zero
  byte appended, which is greater than that key with no key strictly between them.
\<close>

theorem C3_next_start_key:
  assumes "getData E s w = Some (w', s', Ok)"
  shows "\<exists>n w0 w1 loc.
           retried E s n w = Some w0 \<and> LocateKey E w0 (nextStartKey s) = (w1, Inr loc) \<and>
           (if int (length (cache s')) < batchSize s
            then nextStartKey s' = EndKey loc \<and>
                 eof s' = (if EndKey loc = [] then True else eof s)
            else cache s' \<noteq> [] \<and>
                 nextStartKey s' = Key (last (cache s')) @ [CHR 0x00] \<and>
                 eof s' = eof s \<and>
                 Key (last (cache s')) < nextStartKey s' \<and>
                 (\<forall>x. Key (last (cache s')) < x \<longrightarrow> nextStartKey s' \<le> x))"
proof -
  from getData_final[OF assms] obtain n w0
    where r: "retried E s n w = Some w0" and b: "getData_body E s w0 = Inr (w', s', Ok)"
    by blast
  from getData_body_Ok[OF b] obtain w1 loc
    where l: "LocateKey E w0 (nextStartKey s) = (w1, Inr loc)"
      and i: "install s loc (cache s') = (s', Ok)" by blast
  from install_Ok[OF i] Key_Next_greater[of "Key (last (cache s'))"]
       Key_Next_least[of "Key (last (cache s'))"]
  have "if int (length (cache s')) < batchSize s
            then nextStartKey s' = EndKey loc \<and>
                 eof s' = (if EndKey loc = [] then True else eof s)
            else cache s' \<noteq> [] \<and>
                 nextStartKey s' = Key (last (cache s')) @ [CHR 0x00] \<and>
                 eof s' = eof s \<and>
                 Key (last (cache s')) < nextStartKey s' \<and>
                 (\<forall>x. Key (last (cache s')) < x \<longrightarrow> nextStartKey s' \<le> x)"
    by (auto simp: Key_Next_def)
  with r l show ?thesis by blast
qed

lemma fetch_full_page:
  "getData env5 (scanner0\<lparr>idx := 1\<rparr>) (0, 0) = Some ((0, 0), scannerABC 0, Ok)"
  by code_simp

lemma fetch_short_page:
  "getData env5 (scannerABC 3) (0, 0) = Some ((0, 0), scannerDE lockedD, Ok)"
  by code_simp

theorem C3_next_start_key_witness:
  "getData env5 (scanner0\<lparr>idx := 1\<rparr>) (0, 0) = Some ((0, 0), scannerABC 0, Ok) \<and>
   nextStartKey (scannerABC 0) = ''c'' @ [CHR 0x00] \<and> \<not> eof (scannerABC 0) \<and>
   getData env5 (scannerABC 3) (0, 0) = Some ((0, 0), scannerDE lockedD, Ok) \<and>
   nextStartKey (scannerDE lockedD) = EndKey loc1 \<and> eof (scannerDE lockedD)"
  using C3_next_start_key[OF fetch_full_page] C3_next_start_key[OF fetch_short_page]
        fetch_full_page fetch_short_page
  by (simp add: state_simps loc1_def)





text \<open>
  C5. For a Scanner whose cursor is on an entry that carries a conflict marker,
  \<open>resolveCurrentLock\<close> calls the snapshot's point-read for the Scanner's snapshot and
  the entry's key. When the point-read returns a value, the entry's value becomes that
  value and its marker is cleared, its key and all other entries stay, and no error
  is returned; when the point-read fails, its error is returned and the Scanner is
  unchanged.
\<close>

theorem C5_conflict_resolved_by_point_read:
  assumes "0 \<le> idx s" and "idx s < int (length (cache s))"
      and "Error (cache s ! nat (idx s)) = Some ke"
  shows "(\<forall>w' val. snapshot_get E w (snapshot s) (Key (cache s ! nat (idx s))) = (w', Inr val) \<longrightarrow>
            (\<exists>s'. resolveCurrentLock E s w = (w', s', Ok) \<and>
                  s' = s\<lparr>cache := (cache s)[nat (idx s) :=
                          (cache s ! nat (idx s))\<lparr>Error := None, Value := val\<rparr>]\<rparr> \<and>
                  Value (cache s' ! nat (idx s')) = val \<and>
                  Error (cache s' ! nat (idx s')) = None \<and>
                  Key (cache s' ! nat (idx s')) = Key (cache s ! nat (idx s)))) \<and>
         (\<forall>w' err. snapshot_get E w (snapshot s) (Key (cache s ! nat (idx s))) = (w', Inl err) \<longrightarrow>
            resolveCurrentLock E s w = (w', s, Err err))"
  using assms by (auto simp: resolveCurrentLock_def Let_def)

theorem C5_conflict_resolved_by_point_read_witness:
  "resolveCurrentLock env5 (scannerDE lockedD) (0, 2) = ((0, 2), scannerDE resolvedD, Ok) \<and>
   snapshot_get env5 (0, 2) snap10 ''d'' = ((0, 2), Inr ''D2'') \<and>
   Scanner_Value (scannerDE resolvedD) = Some ''D2'' \<and>
   resolveCurrentLock envNotFound (scannerDE lockedD) (0, 2) =
     ((0, 2), scannerDE lockedD, Err ErrNotExist)"
  using C5_conflict_resolved_by_point_read[of "scannerDE lockedD" "lockOn ''d''" env5 "(0, 2)"]
        C5_conflict_resolved_by_point_read[of "scannerDE lockedD" "lockOn ''d''" envNotFound
          "(0, 2)"]
  by (simp add: env_simps state_simps Scanner_Value_def)







text \<open>
  C7. \<open>newScanner\<close> builds the Scanner and performs one \<open>Next\<close>. When that \<open>Next\<close> fails
  with the not-found error, \<open>newScanner\<close> returns the Scanner with no error, and the
  Scanner is not valid; when it fails with any other error, \<open>newScanner\<close> returns that
  error; when it succeeds, so does \<open>newScanner\<close>.
\<close>

theorem C7_construction:
  assumes "Next E \<lparr>snapshot = snap, batchSize = (if n \<le> 1 then scanBatchSize E else n),
                   valid = True, cache = [], idx = 0, nextStartKey = startKey, eof = False\<rparr> w
           = Some (w', s', r)"
  shows "(r = Err ErrNotExist \<longrightarrow>
            newScanner E snap startKey n w = Some (w', s', Ok) \<and> \<not> Valid s') \<and>
         (\<forall>e. r = Err e \<and> e \<noteq> ErrNotExist \<longrightarrow>
            newScanner E snap startKey n w = Some (w', s', Err e)) \<and>
         (r = Ok \<longrightarrow> newScanner E snap startKey n w = Some (w', s', Ok))"
proof -
  have "r = Err ErrNotExist \<longrightarrow> \<not> Valid s'"
  proof
    assume "r = Err ErrNotExist"
    with assms have "Next_loop E \<lparr>snapshot = snap,
                   batchSize = (if n \<le> 1 then scanBatchSize E else n),
                   valid = True, cache = [], idx = 0, nextStartKey = startKey, eof = False\<rparr>
                   (NewBackoffer E w) = Some (w', s', Err ErrNotExist)"
      by (simp add: Next_def Let_def)
    from Next_loop_Err[OF this] show "\<not> Valid s'" by (simp add: Valid_def)
  qed
  with assms show ?thesis
    by (simp add: newScanner_def Let_def IsErrNotFound_def)
qed

lemma Next_not_found:
  "Next envNotFound \<lparr>snapshot = snap10, batchSize = 3, valid = True, cache = [], idx = 0,
                     nextStartKey = ''d'', eof = False\<rparr> (0, 0) =
     Some ((0, 2), Close (scannerDE lockedD), Err ErrNotExist)"
  by code_simp

lemma Next_budget_exhausted:
  "Next env5 \<lparr>snapshot = snap10, batchSize = 3, valid = True, cache = [], idx = 0,
              nextStartKey = [], eof = False\<rparr> (3, 0) =
     Some ((1, 0), Close (scanner0\<lparr>idx := 1\<rparr>), Err (ErrNew ''maxSleep exceeded''))"
  by code_simp

lemma Next_first:
  "Next env5 \<lparr>snapshot = snap10, batchSize = 3, valid = True, cache = [], idx = 0,
              nextStartKey = [], eof = False\<rparr> (0, 0) =
     Some ((0, 2), scannerABC 0, Ok)"
  by code_simp

theorem C7_construction_witness:
  "newScanner envNotFound snap10 ''d'' 3 (0, 0) =
     Some ((0, 2), Close (scannerDE lockedD), Ok) \<and>
   \<not> Valid (Close (scannerDE lockedD)) \<and>
   newScanner env5 snap10 [] 3 (3, 0) =
     Some ((1, 0), Close (scanner0\<lparr>idx := 1\<rparr>), Err (ErrNew ''maxSleep exceeded'')) \<and>
   newScanner env5 snap10 [] 3 (0, 0) = Some ((0, 2), scannerABC 0, Ok)"
  using C7_construction[of envNotFound snap10 3 "''d''" "(0, 0)" "(0, 2)"
          "Close (scannerDE lockedD)" "Err ErrNotExist"]
        C7_construction[of env5 snap10 3 "[]" "(3, 0)" "(1, 0)"
          "Close (scanner0\<lparr>idx := 1\<rparr>)" "Err (ErrNew ''maxSleep exceeded'')"]
        C7_construction[of env5 snap10 3 "[]" "(0, 0)" "(0, 2)" "scannerABC 0" Ok]
        Next_not_found Next_budget_exhausted Next_first
  by simp




end
